theory Spec2Isabelle
  imports
    Main
    "HOL-Library.AList"
    "HOL-Library.Char_ord"
    "HOL-Library.List_Lexorder"
    "HOL-Library.Multiset"
    "HOL-Library.Sublist"
begin

section \<open>Strings\<close>

text \<open>
  A Python or JavaScript string is modelled as a \<^typ>\<open>string\<close>: a list of characters
  whose code points are below 256.  On that range \<open>str.lower()\<close> and
  \<open>String.prototype.toLowerCase()\<close> agree: the letters \<open>A\<close> to \<open>Z\<close> and the
  Latin-1 capitals U+00C0 to U+00DE (without the multiplication sign U+00D7) move up by
  32, every other character stays.  Strings are compared as Python compares them, by code
  point and lexicographically (\<open>Char_ord\<close> and \<open>List_Lexorder\<close>).
\<close>

definition lower_char :: "char \<Rightarrow> char" where
  "lower_char c =
     (let n = (of_char c :: nat)
      in if (65 \<le> n \<and> n \<le> 90) \<or> (192 \<le> n \<and> n \<le> 222 \<and> n \<noteq> 215)
         then char_of (n + 32) else c)"

definition lower :: "string \<Rightarrow> string" where
  "lower s = map lower_char s"

text \<open>\<open>sep.join(xs)\<close>\<close>

fun join :: "string \<Rightarrow> string list \<Rightarrow> string" where
  "join sep [] = []"
| "join sep [x] = x"
| "join sep (x # y # ys) = x @ sep @ join sep (y # ys)"

text \<open>\<open>s.replace(c, t)\<close> for a one-character pattern \<open>c\<close>\<close>

definition replace_char :: "char \<Rightarrow> string \<Rightarrow> string \<Rightarrow> string" where
  "replace_char c t s = concat (map (\<lambda>x. if x = c then t else [x]) s)"

text \<open>\<open>d.get(key, default)\<close> on a key that is absent (\<open>None\<close>) or holds a value\<close>

definition dict_get :: "'a option \<Rightarrow> 'a \<Rightarrow> 'a" where
  "dict_get v dflt = (case v of None \<Rightarrow> dflt | Some x \<Rightarrow> x)"


section \<open>The inventory data\<close>

text \<open>
  A resource is a Python dict whose keys may be missing.  A field of type
  \<open>'a option\<close> is \<open>None\<close> when the key is absent.  The region may also be present
  and hold Python's \<open>None\<close>.  Tags and details are dicts in insertion order with
  distinct keys; detail values are kept as the text \<open>str(v)\<close> gives.
\<close>

datatype region_field = RegionAbsent | RegionNone | RegionStr string

record resource =
  service :: "string option"
  rtype :: "string option"
  rid :: "string option"
  name :: "string option"
  region :: region_field
  arn :: "string option"
  is_default :: "bool option"
  tags :: "(string \<times> string) list option"
  details :: "(string \<times> string) list option"

record metadata =
  account_id :: "string option"
  timestamp :: "string option"
  scan_duration_seconds :: "int option"

record inventory =
  resources :: "resource list option"
  metadata :: "metadata option"


section \<open>format_csv\<close>

text \<open>
  \<open>csv.DictWriter\<close> with the default \<open>excel\<close> dialect: fields are separated by a
  comma, a record ends with CR LF, and a field that holds a comma, a double quote, a CR
  or a LF is put in double quotes with every double quote doubled (\<open>QUOTE_MINIMAL\<close>).
  The writer turns a bool into \<open>str(b)\<close>.
\<close>

definition csv_special :: "char \<Rightarrow> bool" where
  "csv_special c = (c = CHR '','' \<or> c = CHR 0x22 \<or> c = CHR 0x0A \<or> c = CHR 0x0D)"

definition csv_field :: "string \<Rightarrow> string" where
  "csv_field s =
     (if list_ex csv_special s
      then [CHR 0x22] @ replace_char (CHR 0x22) [CHR 0x22, CHR 0x22] s @ [CHR 0x22]
      else s)"

definition csv_writerow :: "string list \<Rightarrow> string" where
  "csv_writerow row = join '','' (map csv_field row) @ [CHR 0x0D, CHR 0x0A]"

definition str_bool :: "bool \<Rightarrow> string" where
  "str_bool b = (if b then ''True'' else ''False'')"

definition fieldnames :: "string list" where
  "fieldnames =
     [''service'', ''type'', ''id'', ''name'', ''region'', ''arn'', ''is_default'', ''tags'']"

text \<open>The region as the CSV row takes it: \<open>resource.get('region', '')\<close>, where the
  writer prints \<open>None\<close> as the empty string.\<close>

definition csv_region :: "region_field \<Rightarrow> string" where
  "csv_region r = (case r of RegionAbsent \<Rightarrow> [] | RegionNone \<Rightarrow> [] | RegionStr s \<Rightarrow> s)"

text \<open>The f-string \<open>f"{k}={v}"\<close> for an item \<open>(k, v)\<close> of a tag dict\<close>

definition key_value :: "string \<times> string \<Rightarrow> string" where
  "key_value kv = fst kv @ ''='' @ snd kv"

definition tags_str :: "resource \<Rightarrow> string" where
  "tags_str resource =
     (let tgs = dict_get (tags resource) []
      in if tgs \<noteq> [] then join ''; '' (map key_value tgs) else [])"

text \<open>The values of the dict handed to \<open>writer.writerow\<close>, in the order of
  \<open>fieldnames\<close>.\<close>

definition csv_row :: "resource \<Rightarrow> string list" where
  "csv_row resource =
     [dict_get (service resource) [],
      dict_get (rtype resource) [],
      dict_get (rid resource) [],
      dict_get (name resource) [],
      csv_region (region resource),
      dict_get (arn resource) [],
      str_bool (dict_get (is_default resource) False),
      tags_str resource]"

definition format_csv :: "inventory \<Rightarrow> string" where
  "format_csv data =
     (let rs = dict_get (resources data) []
      in if rs = [] then ''service,type,id,name,region,arn,is_default,tags'' @ [CHR 0x0A]
         else foldl (\<lambda>output resource. output @ csv_writerow (csv_row resource))
                (csv_writerow fieldnames) rs)"


section \<open>format_html: aggregation\<close>

text \<open>
  A Python dict is an association list in insertion order with distinct keys:
  \<open>k in d\<close> is \<open>map_of d k \<noteq> None\<close>, \<open>d[k] = v\<close> is \<open>AList.update k v d\<close> (the
  value is replaced in place, a new key goes to the end), and a mutation of the value
  stored under a key that is present is \<open>AList.map_entry\<close>.  A Python set is a set.
\<close>

text \<open>\<open>r.get('region', 'global') or 'global'\<close>: the default covers the absent key,
  \<open>or\<close> covers the falsy values \<open>None\<close> and the empty string.\<close>

definition region_val :: "resource \<Rightarrow> string" where
  "region_val r =
     (let got = (case region r of RegionAbsent \<Rightarrow> RegionStr ''global'' | x \<Rightarrow> x)
      in case got of
           RegionStr s \<Rightarrow> if s = [] then ''global'' else s
         | _ \<Rightarrow> ''global'')"

definition group_services :: "resource list \<Rightarrow> (string \<times> resource list) list" where
  "group_services rs =
     foldl (\<lambda>services r.
        let svc = dict_get (service r) ''unknown'';
            services1 = (if map_of services svc = None
                         then AList.update svc [] services else services)
        in AList.map_entry svc (\<lambda>l. l @ [r]) services1) [] rs"

definition group_regions :: "resource list \<Rightarrow> (string \<times> nat) list" where
  "group_regions rs =
     foldl (\<lambda>regions r.
        let reg = region_val r;
            regions1 = (if map_of regions reg = None
                        then AList.update reg 0 regions else regions)
        in AList.map_entry reg (\<lambda>n. n + 1) regions1) [] rs"

definition collect_tags :: "resource list \<Rightarrow> (string \<times> string set) list" where
  "collect_tags rs =
     foldl (\<lambda>all_tags r.
        foldl (\<lambda>all_tags1 (k, v).
           let all_tags2 = (if map_of all_tags1 k = None
                            then AList.update k {} all_tags1 else all_tags1)
           in AList.map_entry k (insert v) all_tags2) all_tags (dict_get (tags r) [])) [] rs"

definition count_resource_types :: "resource list \<Rightarrow> (string \<times> nat) list" where
  "count_resource_types rs =
     foldl (\<lambda>resource_types r.
        let rt = dict_get (service r) [] @ ''/'' @ dict_get (rtype r) []
        in AList.update rt (dict_get (map_of resource_types rt) 0 + 1) resource_types) [] rs"

definition esc :: "string \<Rightarrow> string" where
  "esc s =
     replace_char (CHR 0x22) ''&quot;''
       (replace_char (CHR ''>'') ''&gt;''
         (replace_char (CHR ''<'') ''&lt;''
           (replace_char (CHR ''&'') ''&amp;'' s)))"

text \<open>The tag vocabulary: \<open>for k in sorted(all_tags.keys()): for v in sorted(all_tags[k])\<close>.
  Every \<open>k\<close> is a key of the dict, so the lookup finds it.\<close>

definition tag_vocabulary :: "(string \<times> string set) list \<Rightarrow> (string \<times> string) list" where
  "tag_vocabulary all_tags =
     concat (map (\<lambda>k. case map_of all_tags k of
                          None \<Rightarrow> []
                        | Some vs \<Rightarrow> map (\<lambda>v. (k, v)) (sorted_list_of_set vs))
                 (sort (map fst all_tags)))"

definition tag_option :: "string \<times> string \<Rightarrow> string" where
  "tag_option kv =
     ''<option value='' @ [CHR 0x22] @ esc (fst kv) @ ''='' @ esc (snd kv) @ [CHR 0x22] @ ''>''
       @ esc (fst kv) @ ''='' @ esc (snd kv) @ ''</option>''"

definition tag_options :: "resource list \<Rightarrow> string list" where
  "tag_options rs = map tag_option (tag_vocabulary (collect_tags rs))"

definition tag_options_html :: "resource list \<Rightarrow> string" where
  "tag_options_html rs = join [CHR 0x0A] (tag_options rs)"


section \<open>format_html: the summary charts\<close>

text \<open>\<open>sorted(xs, key=f, reverse=True)\<close>: CPython reverses the list, sorts it stably in
  ascending order and reverses the result.\<close>

definition sorted_reverse :: "('a \<Rightarrow> nat) \<Rightarrow> 'a list \<Rightarrow> 'a list" where
  "sorted_reverse f xs = rev (sort_key f (rev xs))"

text \<open>A bar of a chart: the key of its group (the page shows it escaped, and in upper
  case for a service), its width in percent and the count printed beside it.\<close>

record stat_bar =
  stat_label :: string
  bar_width :: nat
  stat_value :: nat

definition top_services :: "resource list \<Rightarrow> (string \<times> resource list) list" where
  "top_services rs = take 5 (sorted_reverse (\<lambda>x. length (snd x)) (group_services rs))"

definition service_stats :: "resource list \<Rightarrow> stat_bar list" where
  "service_stats rs =
     (let total_resources = length rs
      in map (\<lambda>(s, r). \<lparr>stat_label = s,
                         bar_width = min 100 (length r * 100 div max 1 total_resources),
                         stat_value = length r\<rparr>) (top_services rs))"

definition top_regions :: "resource list \<Rightarrow> (string \<times> nat) list" where
  "top_regions rs = take 5 (sorted_reverse snd (group_regions rs))"

definition region_stats :: "resource list \<Rightarrow> stat_bar list" where
  "region_stats rs =
     (let total_resources = length rs
      in map (\<lambda>(reg, count). \<lparr>stat_label = reg,
                         bar_width = min 100 (count * 100 div max 1 total_resources),
                         stat_value = count\<rparr>) (top_regions rs))"


section \<open>format_html: the service sections\<close>

text \<open>
  The part of the page the script works on.  A row carries the \<open>data-\<close> attributes the
  page gives it, as the browser hands them to the script through \<open>dataset\<close> (parsing
  the attribute undoes \<open>esc\<close>), and the classes and flags the script changes:
  \<open>hidden\<close>, \<open>expanded\<close>, \<open>dataset.autoExpanded\<close>.  A resource with details has a
  second row, the details row, with the classes \<open>hidden\<close> and \<open>collapsed\<close>.  A
  section has the rows of one service, the classes \<open>hidden\<close> (on the section) and
  \<open>collapsed\<close> (on its content), the toggle icon and the number shown in its count.
\<close>

record details_row =
  details_hidden :: bool
  details_collapsed :: bool

record row =
  data_service :: string
  data_region :: string
  data_name :: string
  data_id :: string
  data_tags :: string
  data_details :: "string option"
  row_hidden :: bool
  row_expanded :: bool
  row_autoExpanded :: bool
  details_of :: "details_row option"

record page_section =
  section_service :: string
  section_hidden :: bool
  content_collapsed :: bool
  toggle_icon :: string
  service_count :: nat
  section_autoExpanded :: bool
  section_rows :: "row list"

text \<open>\<open>' '.join(str(v) for v in details.values()).lower()\<close> with every character below
  the space replaced by a space\<close>

definition detail_text :: "(string \<times> string) list \<Rightarrow> string" where
  "detail_text dts =
     map (\<lambda>c. if CHR '' '' \<le> c then c else CHR '' '') (lower (join '' '' (map snd dts)))"

definition render_row :: "string \<Rightarrow> resource \<Rightarrow> row" where
  "render_row service_name r =
     (let tgs = dict_get (tags r) [];
          tags_data = (if tgs \<noteq> [] then join ''|'' (map key_value tgs) else []);
          dts = dict_get (details r) [];
          has_details = (dts \<noteq> [])
      in \<lparr>data_service = service_name,
          data_region = region_val r,
          data_name = lower (dict_get (name r) []),
          data_id = lower (dict_get (rid r) []),
          data_tags = tags_data,
          data_details = (if has_details then Some (detail_text dts) else None),
          row_hidden = False,
          row_expanded = False,
          row_autoExpanded = False,
          details_of = (if has_details
                        then Some \<lparr>details_hidden = False, details_collapsed = True\<rparr>
                        else None)\<rparr>)"

text \<open>\<open>for service_name in sorted(services.keys())\<close>, with the rows of
  \<open>services[service_name]\<close>\<close>

definition service_sections :: "resource list \<Rightarrow> page_section list" where
  "service_sections rs =
     (let services = group_services rs
      in map (\<lambda>service_name.
            let service_resources = dict_get (map_of services service_name) []
            in \<lparr>section_service = service_name,
                section_hidden = False,
                content_collapsed = True,
                toggle_icon = ''+'',
                service_count = length service_resources,
                section_autoExpanded = False,
                section_rows = map (render_row service_name) service_resources\<rparr>)
          (sort (map fst services)))"


section \<open>The script: filterResources\<close>

text \<open>\<open>s.includes(sub)\<close> on strings and \<open>s.split(c)\<close> for a one-character separator\<close>

fun str_includes :: "string \<Rightarrow> string \<Rightarrow> bool" where
  "str_includes [] sub = (sub = [])"
| "str_includes (x # xs) sub = (prefix sub (x # xs) \<or> str_includes xs sub)"

fun split :: "char \<Rightarrow> string \<Rightarrow> string list" where
  "split c [] = [[]]"
| "split c (x # xs) =
     (if x = c then [] # split c xs
      else (case split c xs of [] \<Rightarrow> [[x]] | y # ys \<Rightarrow> (x # y) # ys))"

text \<open>The values of the four controls: the search box and the three selects.  The empty
  string is the unset filter.\<close>

record controls =
  searchBox :: string
  serviceFilter :: string
  regionFilter :: string
  tagFilter :: string

definition matchService :: "string \<Rightarrow> row \<Rightarrow> bool" where
  "matchService svc rw = (svc = [] \<or> data_service rw = svc)"

definition matchRegion :: "string \<Rightarrow> row \<Rightarrow> bool" where
  "matchRegion reg rw = (reg = [] \<or> data_region rw = reg)"

definition matchSearch :: "string \<Rightarrow> row \<Rightarrow> bool" where
  "matchSearch search rw =
     (let detailText = dict_get (data_details rw) []
      in search = [] \<or> str_includes (data_name rw) search \<or> str_includes (data_id rw) search
         \<or> str_includes detailText search)"

definition matchTag :: "string \<Rightarrow> row \<Rightarrow> bool" where
  "matchTag tag rw = (tag = [] \<or> tag \<in> set (split (CHR ''|'') (data_tags rw)))"

definition matchedInDetails :: "string \<Rightarrow> row \<Rightarrow> bool" where
  "matchedInDetails search rw =
     (search \<noteq> [] \<and> str_includes (dict_get (data_details rw) []) search)"

text \<open>The body of the loop over the rows of a section.  The highlighting of the cells is
  left to the highlighter below: it changes the text nodes of the cells, which a row
  of this model does not hold.\<close>

definition filter_row :: "string \<Rightarrow> string \<Rightarrow> string \<Rightarrow> string \<Rightarrow> row \<Rightarrow> row" where
  "filter_row search svc reg tag rw =
     (if matchService svc rw \<and> matchRegion reg rw \<and> matchSearch search rw
         \<and> matchTag tag rw
      then (case details_of rw of
              None \<Rightarrow> rw\<lparr>row_hidden := False\<rparr>
            | Some detailRow \<Rightarrow>
                if matchedInDetails search rw
                then rw\<lparr>row_hidden := False, row_expanded := True, row_autoExpanded := True,
                        details_of := Some (detailRow\<lparr>details_hidden := False,
                                                      details_collapsed := False\<rparr>)\<rparr>
                else if row_autoExpanded rw
                then rw\<lparr>row_hidden := False, row_expanded := False, row_autoExpanded := False,
                        details_of := Some (detailRow\<lparr>details_hidden := False,
                                                      details_collapsed := True\<rparr>)\<rparr>
                else rw\<lparr>row_hidden := False,
                        details_of := Some (detailRow\<lparr>details_hidden := False\<rparr>)\<rparr>)
      else rw\<lparr>row_hidden := True, row_autoExpanded := False,
              details_of := map_option (\<lambda>detailRow. detailRow\<lparr>details_hidden := True\<rparr>)
                              (details_of rw)\<rparr>)"

text \<open>The body of the loop over the sections.  \<open>visibleCount\<close> counts the rows that
  took the first branch of \<open>filter_row\<close>, which are the rows it leaves without the
  class \<open>hidden\<close>.\<close>

definition filter_section :: "string \<Rightarrow> string \<Rightarrow> string \<Rightarrow> string \<Rightarrow> page_section \<Rightarrow> page_section" where
  "filter_section search svc reg tag sec =
     (if svc \<noteq> [] \<and> section_service sec \<noteq> svc
      then sec\<lparr>section_hidden := True\<rparr>
      else
        let rows1 = map (filter_row search svc reg tag) (section_rows sec);
            visibleCount = length (filter (\<lambda>rw. \<not> row_hidden rw) rows1);
            hasVisible = (0 < visibleCount);
            sec1 = sec\<lparr>section_rows := rows1, section_hidden := \<not> hasVisible,
                       service_count := visibleCount\<rparr>
        in if hasVisible \<and> search \<noteq> []
           then sec1\<lparr>content_collapsed := False, toggle_icon := ''-'',
                     section_autoExpanded := True\<rparr>
           else if search = [] \<and> section_autoExpanded sec
           then sec1\<lparr>content_collapsed := True, toggle_icon := ''+'',
                     section_autoExpanded := False\<rparr>
           else sec1)"

definition filterResources :: "controls \<Rightarrow> page_section list \<Rightarrow> page_section list" where
  "filterResources ctl page =
     (let search = lower (searchBox ctl);
          svc = serviceFilter ctl;
          reg = regionFilter ctl;
          tag = tagFilter ctl
      in map (filter_section search svc reg tag) page)"

text \<open>\<open>clearFilters\<close> empties the four controls and runs \<open>filterResources\<close>.\<close>

definition clearFilters :: "page_section list \<Rightarrow> page_section list" where
  "clearFilters page =
     filterResources \<lparr>searchBox = [], serviceFilter = [], regionFilter = [], tagFilter = []\<rparr> page"

text \<open>A row is on the screen when neither it nor its section has the class
  \<open>hidden\<close>.  \<open>visibility\<close> gives this for every row of every section, in the order
  of the page.\<close>

definition visibility :: "page_section list \<Rightarrow> bool list list" where
  "visibility page =
     map (\<lambda>sec. map (\<lambda>rw. \<not> section_hidden sec \<and> \<not> row_hidden rw) (section_rows sec)) page"


section \<open>The script: highlightMatches and clearHighlights\<close>

text \<open>
  The children of the element the highlighter works on: text nodes and \<open>mark\<close>
  elements, a \<open>mark\<close> holding the text it marks.
\<close>

datatype node = TextNode string | MarkElem string

fun is_mark :: "node \<Rightarrow> bool" where
  "is_mark (MarkElem m) = True"
| "is_mark (TextNode t) = False"

fun textContent :: "node \<Rightarrow> string" where
  "textContent (MarkElem m) = m"
| "textContent (TextNode t) = t"

text \<open>\<open>parent.normalize()\<close> removes the empty text nodes and joins text nodes that stand
  side by side.\<close>

fun normalize :: "node list \<Rightarrow> node list" where
  "normalize [] = []"
| "normalize (MarkElem m # ns) = MarkElem m # normalize ns"
| "normalize (TextNode t # ns) =
     (if t = [] then normalize ns
      else (case normalize ns of
              TextNode u # rest \<Rightarrow> TextNode (t @ u) # rest
            | other \<Rightarrow> TextNode t # other))"

text \<open>\<open>parent.replaceChild(document.createTextNode(mark.textContent), mark)\<close> for the
  first \<open>mark\<close> of the list\<close>

fun replace_mark :: "node list \<Rightarrow> node list" where
  "replace_mark [] = []"
| "replace_mark (MarkElem m # ns) = TextNode m # ns"
| "replace_mark (TextNode t # ns) = TextNode t # replace_mark ns"

lemma filter_is_mark_normalize: "filter is_mark (normalize ns) = filter is_mark ns"
  by (induction ns rule: normalize.induct) (auto split: list.splits node.splits)

lemma length_marks_replace_mark:
  "list_ex is_mark ns \<Longrightarrow> length (filter is_mark (replace_mark ns)) < length (filter is_mark ns)"
  by (induction ns rule: replace_mark.induct) auto

text \<open>\<open>clearHighlights\<close> visits the \<open>mark\<close> elements in document order; each visit
  replaces the \<open>mark\<close> and normalizes its parent, so the next \<open>mark\<close> visited is the
  first one left.\<close>

function clearHighlights :: "node list \<Rightarrow> node list" where
  "clearHighlights ns =
     (if list_ex is_mark ns then clearHighlights (normalize (replace_mark ns)) else ns)"
  by pat_completeness auto
termination
  by (relation "measure (\<lambda>ns. length (filter is_mark ns))")
     (auto simp: filter_is_mark_normalize length_marks_replace_mark)

declare clearHighlights.simps [simp del]

text \<open>\<open>s.indexOf(pat, from)\<close>, with \<open>None\<close> for \<open>-1\<close>, and \<open>s.substring(a, b)\<close>,
  which clamps both indices to the length and swaps them when they are out of order.\<close>

fun find_from :: "string \<Rightarrow> string \<Rightarrow> nat option" where
  "find_from pat [] = (if pat = [] then Some 0 else None)"
| "find_from pat (x # xs) =
     (if prefix pat (x # xs) then Some 0 else map_option Suc (find_from pat xs))"

definition indexOf :: "string \<Rightarrow> string \<Rightarrow> nat \<Rightarrow> nat option" where
  "indexOf s pat from =
     (let start = min from (length s)
      in map_option (\<lambda>i. start + i) (find_from pat (drop start s)))"

definition substring :: "string \<Rightarrow> nat \<Rightarrow> nat \<Rightarrow> string" where
  "substring s a b =
     (let a1 = min a (length s); b1 = min b (length s)
      in take (max a1 b1 - min a1 b1) (drop (min a1 b1) s))"

text \<open>The \<open>while\<close> loop over the matches in one text node.  It is a partial function:
  \<open>None\<close> stands for a loop that does not end.  The result is the fragment built so
  far, \<open>lastIdx\<close> and \<open>found\<close>.\<close>

partial_function (option) highlight_loop ::
  "string \<Rightarrow> string \<Rightarrow> string \<Rightarrow> string \<Rightarrow> nat \<Rightarrow> node list \<Rightarrow> bool
     \<Rightarrow> (node list \<times> nat \<times> bool) option" where
  "highlight_loop text lowerText termLower term lastIdx frag found =
     (case indexOf lowerText termLower lastIdx of
        None \<Rightarrow> Some (frag, lastIdx, found)
      | Some idx \<Rightarrow>
          highlight_loop text lowerText termLower term (idx + length term)
            (frag @ (if lastIdx < idx then [TextNode (substring text lastIdx idx)] else [])
                  @ [MarkElem (substring text idx (idx + length term))])
            True)"

declare highlight_loop.simps [code]

text \<open>What takes the place of one text node: the node itself when nothing was found,
  else the fragment with the rest of the text.\<close>

definition highlight_text :: "string \<Rightarrow> string \<Rightarrow> node list option" where
  "highlight_text text term =
     (case highlight_loop text (lower text) (lower term) term 0 [] False of
        None \<Rightarrow> None
      | Some (frag, lastIdx, found) \<Rightarrow>
          if \<not> found then Some [TextNode text]
          else Some (frag @ (if lastIdx < length text
                             then [TextNode (substring text lastIdx (length text))] else [])))"

text \<open>The loop over the text nodes.  After \<open>clearHighlights\<close> no \<open>mark\<close> is left,
  so the second equation is never used by \<open>highlightMatches\<close>.\<close>

fun highlight_nodes :: "node list \<Rightarrow> string \<Rightarrow> node list option" where
  "highlight_nodes [] term = Some []"
| "highlight_nodes (MarkElem m # ns) term = map_option (\<lambda>r. MarkElem m # r) (highlight_nodes ns term)"
| "highlight_nodes (TextNode t # ns) term =
     (case highlight_text t term of
        None \<Rightarrow> None
      | Some f \<Rightarrow> map_option (\<lambda>r. f @ r) (highlight_nodes ns term))"

definition highlightMatches :: "node list \<Rightarrow> string \<Rightarrow> node list option" where
  "highlightMatches element term =
     (let cleared = clearHighlights element
      in if term = [] then Some cleared else highlight_nodes cleared term)"


section \<open>format_output\<close>

text \<open>
  The data as \<open>format_output\<close> receives it.  A key of a dict is missing, or present
  with the value \<open>None\<close>, or present with a value; \<open>d.get(key, default)\<close> gives the
  default for the missing key only.  The keys whose \<open>None\<close> makes \<open>format_html\<close> raise
  have this type: \<open>resources\<close> and \<open>metadata\<close> of the data, \<open>service\<close> and \<open>tags\<close> of
  a resource.  A \<open>None\<close> under another key of a resource raises nowhere.
\<close>

datatype 'a entry = Missing | IsNone | Holds 'a

record item =
  item_service :: "string entry"
  item_type :: "string option"
  item_id :: "string option"
  item_name :: "string option"
  item_region :: region_field
  item_arn :: "string option"
  item_is_default :: "bool option"
  item_tags :: "(string \<times> string) list entry"
  item_details :: "(string \<times> string) list option"

record payload =
  payload_resources :: "item list entry"
  payload_metadata :: "metadata entry"

text \<open>
  A resource and the data as \<open>format_csv\<close> reads them, and as \<open>format_html\<close> reads them
  when no value is \<open>None\<close>.  \<open>format_csv\<close> reads a \<open>None\<close> as it reads a missing key: its
  writer prints a service that is \<open>None\<close> as the empty string, it guards the tags with
  \<open>if tags\<close> and the resources with \<open>if not resources\<close>, and it does not read the
  metadata.
\<close>

definition holds :: "'a entry \<Rightarrow> 'a option" where
  "holds e = (case e of Holds x \<Rightarrow> Some x | _ \<Rightarrow> None)"

definition as_resource :: "item \<Rightarrow> resource" where
  "as_resource r =
     \<lparr>service = holds (item_service r), rtype = item_type r, rid = item_id r,
      name = item_name r, region = item_region r, arn = item_arn r,
      is_default = item_is_default r, tags = holds (item_tags r),
      details = item_details r\<rparr>"

definition as_inventory :: "payload \<Rightarrow> inventory" where
  "as_inventory data =
     \<lparr>resources = map_option (map as_resource) (holds (payload_resources data)),
      metadata = holds (payload_metadata data)\<rparr>"

text \<open>
  \<open>format_json\<close> is \<open>json.dumps(data, indent=2, default=str)\<close>; the serializer of the
  Python library is the parameter \<open>dumps\<close>.
\<close>

definition format_json :: "(payload \<Rightarrow> string) \<Rightarrow> payload \<Rightarrow> string" where
  "format_json dumps data = dumps data"

text \<open>The values \<open>format_html\<close> computes from the data and writes into the page.\<close>

record report =
  report_account_id :: string
  report_timestamp :: string
  report_duration :: int
  total_resources :: nat
  number_of_services :: nat
  number_of_regions :: nat
  number_of_types :: nat
  chart_services :: "stat_bar list"
  chart_regions :: "stat_bar list"
  service_options :: "string list"
  region_options :: "string list"
  tag_options_text :: string
  sections :: "page_section list"

definition report_of :: "inventory \<Rightarrow> report" where
  "report_of data =
     (let rs = dict_get (resources data) [];
          md = dict_get (metadata data)
                 \<lparr>account_id = None, timestamp = None, scan_duration_seconds = None\<rparr>
      in \<lparr>report_account_id = dict_get (account_id md) ''Unknown'',
          report_timestamp = dict_get (timestamp md) [],
          report_duration = dict_get (scan_duration_seconds md) 0,
          total_resources = length rs,
          number_of_services = length (group_services rs),
          number_of_regions = length (group_regions rs),
          number_of_types = length (count_resource_types rs),
          chart_services = service_stats rs,
          chart_regions = region_stats rs,
          service_options = sort (map fst (group_services rs)),
          region_options = sort (map fst (group_regions rs)),
          tag_options_text = tag_options_html rs,
          sections = service_sections rs\<rparr>)"

datatype error = ValueError string | AttributeError | TypeError

text \<open>
  \<open>format_html\<close> fills the fixed text of the page, the parameter \<open>page\<close>, with the
  values of the report.  Before it has them it raises, in this order:
  \<^item> \<open>AttributeError\<close> when the metadata is \<open>None\<close>, at \<open>metadata.get('account_id', ...)\<close>;
  \<^item> \<open>TypeError\<close> when the resources are \<open>None\<close>, at \<open>len(resources)\<close>;
  \<^item> \<open>AttributeError\<close> when the tags of a resource are \<open>None\<close>, at \<open>tags.items()\<close> in
    the loop that collects the tags, which has no \<open>if tags\<close>;
  \<^item> when the service of a resource is \<open>None\<close>, at the service options:
    \<open>TypeError\<close> from \<open>sorted(services.keys())\<close> when another resource has a service
    that is a string (a missing one is \<open>'unknown'\<close>), else \<open>AttributeError\<close> from
    \<open>s.upper()\<close>.
\<close>

definition format_html :: "(report \<Rightarrow> string) \<Rightarrow> payload \<Rightarrow> error + string" where
  "format_html page data =
     (case payload_metadata data of
        IsNone \<Rightarrow> Inl AttributeError
      | _ \<Rightarrow>
       (case payload_resources data of
          IsNone \<Rightarrow> Inl TypeError
        | _ \<Rightarrow>
           let rs = dict_get (holds (payload_resources data)) []
           in if list_ex (\<lambda>r. item_tags r = IsNone) rs then Inl AttributeError
              else if list_ex (\<lambda>r. item_service r = IsNone) rs
              then (if list_ex (\<lambda>r. item_service r \<noteq> IsNone) rs
                    then Inl TypeError else Inl AttributeError)
              else Inr (page (report_of (as_inventory data)))))"

definition format_output ::
  "(payload \<Rightarrow> string) \<Rightarrow> (report \<Rightarrow> string) \<Rightarrow> payload \<Rightarrow> string \<Rightarrow> error + string" where
  "format_output dumps page data format_type =
     (let format_type = lower format_type
      in if format_type = ''json'' then Inr (format_json dumps data)
         else if format_type = ''csv'' then Inr (format_csv (as_inventory data))
         else if format_type = ''html'' then format_html page data
         else Inl (ValueError (''Unsupported format: '' @ format_type)))"


section \<open>Names used in the statements\<close>

text \<open>The key a resource is grouped under: \<open>r.get('service', 'unknown')\<close>.\<close>

definition service_key :: "resource \<Rightarrow> string" where
  "service_key r = dict_get (service r) ''unknown''"

text \<open>The two records of the scenario of the specification: an EC2 instance in
  \<open>us-east-1\<close> with the tag \<open>env=prod\<close>, and an S3 bucket whose region is \<open>None\<close>
  and whose tags are empty.\<close>

definition scenario_ec2 :: resource where
  "scenario_ec2 =
     \<lparr>service = Some ''ec2'', rtype = Some ''instance'', rid = Some ''i-1'', name = None,
      region = RegionStr ''us-east-1'', arn = None, is_default = None,
      tags = Some [(''env'', ''prod'')], details = None\<rparr>"

definition scenario_s3 :: resource where
  "scenario_s3 =
     \<lparr>service = Some ''s3'', rtype = Some ''bucket'', rid = Some ''b-1'', name = None,
      region = RegionNone, arn = None, is_default = None,
      tags = Some [], details = None\<rparr>"

definition scenario :: "resource list" where
  "scenario = [scenario_ec2, scenario_s3]"


definition scenario_inventory :: inventory where
  "scenario_inventory = \<lparr>resources = Some scenario, metadata = None\<rparr>"

definition empty_inventory :: inventory where
  "empty_inventory = \<lparr>resources = Some [], metadata = None\<rparr>"

text \<open>The data of the scenario and the data without resources, as \<open>format_output\<close>
  receives them.\<close>

definition as_item :: "resource \<Rightarrow> item" where
  "as_item r =
     \<lparr>item_service = (case service r of None \<Rightarrow> Missing | Some s \<Rightarrow> Holds s),
      item_type = rtype r, item_id = rid r, item_name = name r, item_region = region r,
      item_arn = arn r, item_is_default = is_default r,
      item_tags = (case tags r of None \<Rightarrow> Missing | Some t \<Rightarrow> Holds t),
      item_details = details r\<rparr>"

definition scenario_data :: payload where
  "scenario_data = \<lparr>payload_resources = Holds (map as_item scenario), payload_metadata = Missing\<rparr>"

definition empty_data :: payload where
  "empty_data = \<lparr>payload_resources = Holds [], payload_metadata = Missing\<rparr>"

text \<open>The data \<open>{'resources': [{'service': 'ec2', 'id': 'i', 'tags': None}]}\<close>.\<close>

definition tags_none :: item where
  "tags_none =
     \<lparr>item_service = Holds ''ec2'', item_type = None, item_id = Some ''i'', item_name = None,
      item_region = RegionAbsent, item_arn = None, item_is_default = None,
      item_tags = IsNone, item_details = None\<rparr>"

definition tags_none_data :: payload where
  "tags_none_data = \<lparr>payload_resources = Holds [tags_none], payload_metadata = Missing\<rparr>"

text \<open>The data on which \<open>format_html\<close> reaches its \<open>return\<close>: none of the four values
  is \<open>None\<close>.\<close>

definition html_renders :: "payload \<Rightarrow> bool" where
  "html_renders data =
     (payload_metadata data \<noteq> IsNone \<and> payload_resources data \<noteq> IsNone
      \<and> list_all (\<lambda>r. item_tags r \<noteq> IsNone \<and> item_service r \<noteq> IsNone)
            (dict_get (holds (payload_resources data)) []))"

text \<open>A resource with two tags.\<close>

definition two_tags :: resource where
  "two_tags =
     \<lparr>service = Some ''ec2'', rtype = Some ''instance'', rid = Some ''i-2'', name = Some ''web'',
      region = RegionStr ''eu-west-1'', arn = None, is_default = Some False,
      tags = Some [(''env'', ''prod''), (''team'', ''core'')], details = None\<rparr>"

text \<open>The order of the tag vocabulary: by key, and by value under the same key.\<close>

definition lex_less :: "string \<times> string \<Rightarrow> string \<times> string \<Rightarrow> bool" where
  "lex_less a b = (fst a < fst b \<or> (fst a = fst b \<and> snd a < snd b))"

text \<open>\<open>r.get('tags', {})\<close>\<close>

definition record_tags :: "resource \<Rightarrow> (string \<times> string) list" where
  "record_tags r = dict_get (tags r) []"

text \<open>The body of the inner loop of \<open>collect_tags\<close>, and the pairs a tag dict holds.\<close>

definition add_tag :: "(string \<times> string set) list \<Rightarrow> string \<times> string \<Rightarrow> (string \<times> string set) list" where
  "add_tag d kv =
     AList.map_entry (fst kv) (insert (snd kv))
       (if map_of d (fst kv) = None then AList.update (fst kv) {} d else d)"

definition tag_pairs :: "(string \<times> string set) list \<Rightarrow> (string \<times> string) set" where
  "tag_pairs d = {(k, v). \<exists>s. map_of d k = Some s \<and> v \<in> s}"

text \<open>\<open>sorted(all_tags[k])\<close>, empty for a key that is not in the dict\<close>

definition values_of :: "(string \<times> string set) list \<Rightarrow> string \<Rightarrow> string list" where
  "values_of d k = (case map_of d k of None \<Rightarrow> [] | Some vs \<Rightarrow> sorted_list_of_set vs)"

text \<open>Four resources whose tags share a key and a pair.\<close>

definition tag_sample :: "resource list" where
  "tag_sample = [two_tags, scenario_ec2, scenario_s3,
     scenario_ec2\<lparr>tags := Some [(''env'', ''dev''), (''app'', ''x'')]\<rparr>]"

text \<open>A count as a percentage of a total, rounded down and at most 100; 0 when the
  total is 0.\<close>

definition percent :: "nat \<Rightarrow> nat \<Rightarrow> nat" where
  "percent c n = (if n = 0 then 0 else min 100 (c * 100 div n))"

text \<open>Seven resources in six regions, two of them in region \<open>b\<close>.\<close>

definition in_region :: "string \<Rightarrow> resource" where
  "in_region reg = scenario_ec2\<lparr>region := RegionStr reg\<rparr>"

definition chart_sample :: "resource list" where
  "chart_sample =
     [in_region ''a'', in_region ''b'', in_region ''c'', scenario_s3, in_region ''d'',
      in_region ''b'', in_region ''e'']"

text \<open>The four predicates of \<open>filter_row\<close> together, for the values the script reads
  from the controls.\<close>

definition row_matches :: "controls \<Rightarrow> row \<Rightarrow> bool" where
  "row_matches ctl rw =
     (matchService (serviceFilter ctl) rw \<and> matchRegion (regionFilter ctl) rw
      \<and> matchSearch (lower (searchBox ctl)) rw \<and> matchTag (tagFilter ctl) rw)"

text \<open>The four predicates for every row of every section, in the order of the page.\<close>

definition match_table :: "controls \<Rightarrow> page_section list \<Rightarrow> bool list list" where
  "match_table ctl page = map (\<lambda>sec. map (row_matches ctl) (section_rows sec)) page"

text \<open>Every row has the \<open>data-service\<close> of its section, as \<open>format_html\<close> writes them.\<close>

definition rows_of_section :: "page_section list \<Rightarrow> bool" where
  "rows_of_section page =
     list_all (\<lambda>sec. list_all (\<lambda>rw. data_service rw = section_service sec) (section_rows sec)) page"

text \<open>The positions (section, row) of the rows on the screen.\<close>

definition visible_set :: "page_section list \<Rightarrow> (nat \<times> nat) set" where
  "visible_set page =
     {(i, j). i < length page \<and> j < length (section_rows (page ! i)) \<and> visibility page ! i ! j}"

text \<open>The page after the script has filtered it for each entry of a history of control values,
  starting from the page \<open>format_html\<close> writes.\<close>

definition filtered :: "resource list \<Rightarrow> controls list \<Rightarrow> page_section list" where
  "filtered rs history = foldl (\<lambda>page ctl. filterResources ctl page) (service_sections rs) history"

text \<open>A resource with details, and four resources to filter.\<close>

definition detailed :: resource where
  "detailed =
     scenario_ec2\<lparr>rid := Some ''i-9'', name := Some ''Batch'', region := RegionStr ''eu-west-1'',
                  tags := Some [(''env'', ''dev'')],
                  details := Some [(''state'', ''Running''), (''note'', ''PROD copy'')]\<rparr>"

definition filter_sample :: "resource list" where
  "filter_sample = [scenario_ec2, scenario_s3, two_tags, detailed]"

text \<open>Two settings of the controls.\<close>

definition search_prod :: controls where
  "search_prod = \<lparr>searchBox = ''PROD'', serviceFilter = [], regionFilter = [], tagFilter = []\<rparr>"

definition select_s3 :: controls where
  "select_s3 = \<lparr>searchBox = ''b'', serviceFilter = ''s3'', regionFilter = [], tagFilter = []\<rparr>"

text \<open>The text of a list of nodes: what \<open>textContent\<close> of their parent gives.\<close>

definition nodes_text :: "node list \<Rightarrow> string" where
  "nodes_text ns = concat (map textContent ns)"

section \<open>Grouping by service and by region\<close>

lemma map_of_None_iff: "map_of d k = None \<longleftrightarrow> k \<notin> fst ` set d"
  by (simp add: map_of_eq_None_iff)

lemma map_of_mem: "distinct (map fst d) \<Longrightarrow> (k, v) \<in> set d \<longleftrightarrow> map_of d k = Some v"
  by (auto dest: map_of_SomeD)

lemma sum_map_entry_len:
  "k \<in> fst ` set d \<Longrightarrow>
   sum_list (map (\<lambda>p. length (snd p)) (AList.map_entry k (\<lambda>l. l @ [r]) d))
     = Suc (sum_list (map (\<lambda>p. length (snd p)) d))"
  by (induction d) auto

lemma sum_update_new_len:
  "k \<notin> fst ` set d \<Longrightarrow>
   sum_list (map (\<lambda>p. length (snd p)) (AList.update k [] d))
     = sum_list (map (\<lambda>p. length (snd p)) d)"
  by (induction d) auto

lemma group_services_snoc:
  "group_services (rs @ [r]) =
     (let services = group_services rs; svc = dict_get (service r) ''unknown'';
          services1 = (if map_of services svc = None
                       then AList.update svc [] services else services)
      in AList.map_entry svc (\<lambda>l. l @ [r]) services1)"
  by (simp add: group_services_def Let_def)

lemma group_services_sum:
  "sum_list (map (\<lambda>p. length (snd p)) (group_services rs)) = length rs"
proof (induction rs rule: rev_induct)
  case Nil
  then show ?case by (simp add: group_services_def)
next
  case (snoc r rs)
  then show ?case
    by (auto simp: group_services_snoc Let_def sum_map_entry_len sum_update_new_len
          map_of_None_iff AList.dom_update)
qed

lemma group_services_map_of:
  "map_of (group_services rs) k =
     (if k \<in> service_key ` set rs then Some (filter (\<lambda>r. service_key r = k) rs) else None)"
proof (induction rs arbitrary: k rule: rev_induct)
  case Nil
  then show ?case by (simp add: group_services_def)
next
  case (snoc r rs)
  have a: "map_of (group_services rs) (service_key r) =
     (if service_key r \<in> service_key ` set rs
      then Some (filter (\<lambda>x. service_key x = service_key r) rs) else None)"
    by (rule snoc.IH)
  show ?case
  proof (cases "k = service_key r")
    case True
    then show ?thesis using a
      by (auto simp add: group_services_snoc Let_def AList.map_of_map_entry AList.update_conv'
            service_key_def [symmetric] filter_empty_conv image_iff)
  next
    case False
    then show ?thesis using snoc.IH [of k]
      by (simp add: group_services_snoc Let_def AList.map_of_map_entry AList.update_conv'
            service_key_def [symmetric])
  qed
qed

lemma group_services_distinct: "distinct (map fst (group_services rs))"
proof (induction rs rule: rev_induct)
  case Nil
  then show ?case by (simp add: group_services_def)
next
  case (snoc r rs)
  then show ?case
    by (simp add: group_services_snoc Let_def AList.distinct_map_entry AList.distinct_update)
qed

lemma set_group_services:
  "set (group_services rs) =
     (\<lambda>k. (k, filter (\<lambda>r. service_key r = k) rs)) ` service_key ` set rs"
  using map_of_mem [OF group_services_distinct, of _ _ rs]
  by (auto simp: group_services_map_of split: if_splits)

lemma sum_map_entry_count:
  "k \<in> fst ` set d \<Longrightarrow>
   sum_list (map snd (AList.map_entry k Suc d)) = Suc (sum_list (map snd d))"
  by (induction d) auto

lemma sum_update_new_count:
  "k \<notin> fst ` set d \<Longrightarrow>
   sum_list (map snd (AList.update k (0::nat) d)) = sum_list (map snd d)"
  by (induction d) auto

lemma group_regions_snoc:
  "group_regions (rs @ [r]) =
     (let regions = group_regions rs; reg = region_val r;
          regions1 = (if map_of regions reg = None then AList.update reg 0 regions else regions)
      in AList.map_entry reg (\<lambda>n. n + 1) regions1)"
  by (simp add: group_regions_def Let_def)

lemma group_regions_sum: "sum_list (map snd (group_regions rs)) = length rs"
proof (induction rs rule: rev_induct)
  case Nil
  then show ?case by (simp add: group_regions_def)
next
  case (snoc r rs)
  then show ?case
    by (auto simp: group_regions_snoc Let_def sum_map_entry_count sum_update_new_count
          map_of_None_iff AList.dom_update)
qed

lemma group_regions_map_of:
  "map_of (group_regions rs) k =
     (if k \<in> region_val ` set rs
      then Some (length (filter (\<lambda>r. region_val r = k) rs)) else None)"
proof (induction rs arbitrary: k rule: rev_induct)
  case Nil
  then show ?case by (simp add: group_regions_def)
next
  case (snoc r rs)
  have a: "map_of (group_regions rs) (region_val r) =
     (if region_val r \<in> region_val ` set rs
      then Some (length (filter (\<lambda>x. region_val x = region_val r) rs)) else None)"
    by (rule snoc.IH)
  show ?case
  proof (cases "k = region_val r")
    case True
    then show ?thesis using a
      by (auto simp add: group_regions_snoc Let_def AList.map_of_map_entry AList.update_conv'
            filter_empty_conv image_iff)
  next
    case False
    then show ?thesis using snoc.IH [of k]
      by (simp add: group_regions_snoc Let_def AList.map_of_map_entry AList.update_conv')
  qed
qed

lemma group_regions_distinct: "distinct (map fst (group_regions rs))"
proof (induction rs rule: rev_induct)
  case Nil
  then show ?case by (simp add: group_regions_def)
next
  case (snoc r rs)
  then show ?case
    by (simp add: group_regions_snoc Let_def AList.distinct_map_entry AList.distinct_update)
qed

lemma set_group_regions:
  "set (group_regions rs) =
     (\<lambda>k. (k, length (filter (\<lambda>r. region_val r = k) rs))) ` region_val ` set rs"
  using map_of_mem [OF group_regions_distinct, of _ _ rs]
  by (auto simp: group_regions_map_of split: if_splits)

text \<open>
  C1.  For every list of records the region counts add up to the number of records, and
  so do the sizes of the service groups.  The keys of both dicts are distinct; the group
  of a service key holds exactly the records with that key, in their order, and the
  count of a region key is the number of records with that region: every record is in
  one service group and is counted in one region bucket.
\<close>

theorem aggregation_partitions_records:
  "sum_list (map snd (group_regions rs)) = length rs
   \<and> sum_list (map (\<lambda>p. length (snd p)) (group_services rs)) = length rs
   \<and> distinct (map fst (group_services rs))
   \<and> distinct (map fst (group_regions rs))
   \<and> set (group_services rs) =
        (\<lambda>k. (k, filter (\<lambda>r. service_key r = k) rs)) ` service_key ` set rs
   \<and> set (group_regions rs) =
        (\<lambda>k. (k, length (filter (\<lambda>r. region_val r = k) rs))) ` region_val ` set rs"
  using set_group_services [of rs] set_group_regions [of rs]
  by (simp add: group_regions_sum group_services_sum group_services_distinct
        group_regions_distinct)

theorem aggregation_partitions_records_witness:
  "sum_list (map snd (group_regions scenario)) = 2
   \<and> sum_list (map (\<lambda>p. length (snd p)) (group_services scenario)) = 2
   \<and> map fst (group_regions scenario) = [''us-east-1'', ''global'']"
proof -
  have "map fst (group_regions scenario) = [''us-east-1'', ''global'']"
    by code_simp
  then show ?thesis
    using aggregation_partitions_records [of scenario] by (simp add: scenario_def)
qed


section \<open>The CSV table\<close>

lemma foldl_append_concat: "foldl (\<lambda>out r. out @ f r) acc rs = acc @ concat (map f rs)"
  by (induction rs arbitrary: acc) auto

lemma csv_header_line:
  "csv_writerow fieldnames = ''service,type,id,name,region,arn,is_default,tags'' @ [CHR 0x0D, CHR 0x0A]"
  by (simp add: csv_writerow_def fieldnames_def csv_field_def csv_special_def)

lemma length_csv_row: "length (csv_row r) = length fieldnames"
  by (simp add: csv_row_def fieldnames_def)

text \<open>
  C4.  Without resources \<open>format_csv\<close> returns the header line alone, with the eight
  column names \<open>service, type, id, name, region, arn, is_default, tags\<close> in this
  order.  With resources it returns the same column names as the first line (ended by
  CR LF, as the writer ends every line) followed by the lines the writer prints, one for
  each resource in the order of the list, each for a row of eight fields.
\<close>

theorem format_csv_header_and_rows:
  "format_csv data =
     (if dict_get (resources data) [] = []
      then ''service,type,id,name,region,arn,is_default,tags'' @ [CHR 0x0A]
      else ''service,type,id,name,region,arn,is_default,tags'' @ [CHR 0x0D, CHR 0x0A]
           @ concat (map (\<lambda>r. csv_writerow (csv_row r)) (dict_get (resources data) [])))
   \<and> length (map (\<lambda>r. csv_writerow (csv_row r)) (dict_get (resources data) []))
       = length (dict_get (resources data) [])
   \<and> list_all (\<lambda>r. length (csv_row r) = length fieldnames) (dict_get (resources data) [])"
  by (simp add: format_csv_def Let_def foldl_append_concat csv_header_line length_csv_row
        list_all_iff del: append_Cons)

theorem format_csv_header_and_rows_witness:
  "format_csv empty_inventory = ''service,type,id,name,region,arn,is_default,tags'' @ [CHR 0x0A]
   \<and> format_csv scenario_inventory =
       ''service,type,id,name,region,arn,is_default,tags'' @ [CHR 0x0D, CHR 0x0A]
       @ ''ec2,instance,i-1,,us-east-1,,False,env=prod'' @ [CHR 0x0D, CHR 0x0A]
       @ ''s3,bucket,b-1,,,,False,'' @ [CHR 0x0D, CHR 0x0A]"
proof -
  have e: "dict_get (resources empty_inventory) [] = []"
    by (simp add: empty_inventory_def dict_get_def)
  have s: "dict_get (resources scenario_inventory) [] = scenario"
    by (simp add: scenario_inventory_def dict_get_def)
  have n: "scenario \<noteq> []"
    by (simp add: scenario_def)
  have rows: "concat (map (\<lambda>r. csv_writerow (csv_row r)) scenario) =
       ''ec2,instance,i-1,,us-east-1,,False,env=prod'' @ [CHR 0x0D, CHR 0x0A]
       @ ''s3,bucket,b-1,,,,False,'' @ [CHR 0x0D, CHR 0x0A]"
    by code_simp
  show ?thesis
    using format_csv_header_and_rows [of empty_inventory]
      format_csv_header_and_rows [of scenario_inventory] e s n rows
    by simp
qed

lemma tags_str_join: "tags_str r = join ''; '' (map key_value (dict_get (tags r) []))"
  by (simp add: tags_str_def Let_def)

text \<open>
  C5, as amended.  The tags field of the row of a resource is its tag dict written as
  \<open>key=value\<close> pairs joined by a semicolon and a space, and the empty string when
  the resource has no tags.
\<close>

theorem csv_tags_column:
  "length (csv_row r) = 8
   \<and> csv_row r ! 7 = join ''; '' (map key_value (dict_get (tags r) []))
   \<and> (dict_get (tags r) [] = [] \<longrightarrow> csv_row r ! 7 = [])"
  by (simp add: csv_row_def tags_str_join)

theorem csv_tags_column_witness:
  "csv_row two_tags ! 7 = ''env=prod; team=core'' \<and> csv_row scenario_s3 ! 7 = []"
proof -
  have a: "join ''; '' (map key_value (dict_get (tags two_tags) [])) = ''env=prod; team=core''"
    by code_simp
  have b: "dict_get (tags scenario_s3) [] = []"
    by (simp add: scenario_s3_def dict_get_def)
  show ?thesis
    using csv_tags_column [of two_tags] csv_tags_column [of scenario_s3] a b by simp
qed

text \<open>
  C5 as stated fails: with two tags the field is \<open>env=prod; team=core\<close>, which is not
  the pairs joined by a semicolon alone.
\<close>

theorem csv_tags_semicolon_counterexample:
  "csv_row two_tags ! 7 \<noteq> join '';'' (map key_value (dict_get (tags two_tags) []))"
  by code_simp

section \<open>A resource without a region\<close>

lemma region_val_absent:
  "region r = RegionAbsent \<or> region r = RegionNone \<Longrightarrow> region_val r = ''global''"
  by (auto simp: region_val_def)

lemma csv_region_absent:
  "region r = RegionAbsent \<or> region r = RegionNone \<Longrightarrow> csv_row r ! 4 = []"
  by (auto simp: csv_row_def csv_region_def)

text \<open>
  C3, as amended.  A record of the list whose region is absent or \<open>None\<close> has the
  region value \<open>global\<close>, it is one of the records the count stored under
  \<open>global\<close> counts, and the region field of its CSV row is the empty string.
\<close>

theorem absent_region:
  "(region r = RegionAbsent \<or> region r = RegionNone) \<and> r \<in> set rs \<longrightarrow>
     region_val r = ''global''
     \<and> map_of (group_regions rs) ''global''
         = Some (length (filter (\<lambda>x. region_val x = ''global'') rs))
     \<and> r \<in> set (filter (\<lambda>x. region_val x = ''global'') rs)
     \<and> csv_row r ! 4 = []"
proof
  assume h: "(region r = RegionAbsent \<or> region r = RegionNone) \<and> r \<in> set rs"
  then have g: "region_val r = ''global''"
    by (simp add: region_val_absent)
  with h have "''global'' \<in> region_val ` set rs"
    by (metis imageI)
  then have "map_of (group_regions rs) ''global''
         = Some (length (filter (\<lambda>x. region_val x = ''global'') rs))"
    by (simp add: group_regions_map_of)
  with g h show "region_val r = ''global''
     \<and> map_of (group_regions rs) ''global''
         = Some (length (filter (\<lambda>x. region_val x = ''global'') rs))
     \<and> r \<in> set (filter (\<lambda>x. region_val x = ''global'') rs)
     \<and> csv_row r ! 4 = []"
    by (simp add: csv_region_absent)
qed

theorem absent_region_witness:
  "region_val scenario_s3 = ''global''
   \<and> map_of (group_regions scenario) ''global'' = Some 1
   \<and> csv_row scenario_s3 ! 4 = []"
proof -
  have a: "region scenario_s3 = RegionNone" by (simp add: scenario_s3_def)
  have b: "scenario_s3 \<in> set scenario" by (simp add: scenario_def)
  have c: "length (filter (\<lambda>x. region_val x = ''global'') scenario) = 1"
    by code_simp
  show ?thesis
    using absent_region [of scenario_s3 scenario] a b c by simp
qed

text \<open>
  C3 as stated fails: the region of the S3 bucket of the scenario is \<open>None\<close> and the
  region field of its CSV row is not \<open>global\<close>.
\<close>

theorem csv_region_global_counterexample:
  "region scenario_s3 = RegionNone \<and> csv_row scenario_s3 ! 4 \<noteq> ''global''"
  by code_simp


section \<open>The dispatch on the format\<close>

lemma lower_char_idem: "lower_char (lower_char c) = lower_char c"
  by (auto simp: lower_char_def Let_def)

lemma lower_idem: "lower (lower s) = lower s"
  by (simp add: lower_def lower_char_idem)

lemma format_html_returns:
  "(\<exists>s. format_html page data = Inr s) \<longleftrightarrow> html_renders data"
  by (auto simp: format_html_def html_renders_def Let_def list_all_iff list_ex_iff
        split: entry.splits)

lemma format_html_tags_none: "format_html page tags_none_data = Inl AttributeError"
  by (simp add: format_html_def tags_none_data_def tags_none_def holds_def dict_get_def)

lemma lower_html: "lower ''html'' = ''html''" and lower_HTML: "lower ''HTML'' = ''html''"
  by code_simp+

text \<open>
  C2.  When the lower-cased format is none of \<open>json\<close>, \<open>csv\<close> and \<open>html\<close>,
  \<open>format_output\<close> raises \<open>ValueError\<close> with the message \<open>Unsupported format: \<close>
  followed by the lower-cased format, and returns nothing else.  For \<open>json\<close> and
  \<open>csv\<close> it returns the string of the formatter.  For \<open>html\<close> it does what
  \<open>format_html\<close> does, which returns a string exactly when none of the metadata, the
  resources, the tags of a resource and the service of a resource is \<open>None\<close>: for the
  data \<open>{'resources': [{'service': 'ec2', 'id': 'i', 'tags': None}]}\<close> and the format
  \<open>html\<close> it raises \<open>AttributeError\<close>.  The functions of the model take the data as a
  value: the source assigns to no part of \<open>data\<close>.
\<close>

theorem format_output_result:
  "format_output dumps page tags_none_data ''html'' = Inl AttributeError
   \<and> (lower f \<noteq> ''json'' \<and> lower f \<noteq> ''csv'' \<and> lower f \<noteq> ''html'' \<longrightarrow>
      format_output dumps page data f = Inl (ValueError (''Unsupported format: '' @ lower f)))
   \<and> (lower f = ''json'' \<longrightarrow> format_output dumps page data f = Inr (format_json dumps data))
   \<and> (lower f = ''csv'' \<longrightarrow>
        format_output dumps page data f = Inr (format_csv (as_inventory data)))
   \<and> (lower f = ''html'' \<longrightarrow>
        format_output dumps page data f = format_html page data
        \<and> ((\<exists>s. format_output dumps page data f = Inr s) \<longleftrightarrow> html_renders data))"
  using format_html_returns [of page data]
  by (simp add: format_output_def Let_def lower_html format_html_tags_none)

theorem format_output_result_witness:
  "format_output (\<lambda>d. ''{}'') (\<lambda>r. ''<html>'') empty_data ''xml''
     = Inl (ValueError ''Unsupported format: xml'')
   \<and> format_output (\<lambda>d. ''{}'') (\<lambda>r. ''<html>'') empty_data ''csv''
     = Inr (''service,type,id,name,region,arn,is_default,tags'' @ [CHR 0x0A])
   \<and> format_output (\<lambda>d. ''{}'') (\<lambda>r. ''<html>'') empty_data ''json'' = Inr ''{}''
   \<and> format_output (\<lambda>d. ''{}'') (\<lambda>r. ''<html>'') empty_data ''html'' = Inr ''<html>''
   \<and> format_output (\<lambda>d. ''{}'') (\<lambda>r. ''<html>'') tags_none_data ''html'' = Inl AttributeError"
proof -
  have x: "lower ''xml'' = ''xml''" and c: "lower ''csv'' = ''csv''"
    and j: "lower ''json'' = ''json''"
    by code_simp+
  have e: "format_csv (as_inventory empty_data)
      = ''service,type,id,name,region,arn,is_default,tags'' @ [CHR 0x0A]"
    by (simp add: format_csv_def as_inventory_def empty_data_def holds_def dict_get_def)
  have h: "format_html (\<lambda>r. ''<html>'') empty_data = Inr ''<html>''"
    by (simp add: format_html_def empty_data_def holds_def dict_get_def)
  show ?thesis
    using format_output_result [of "\<lambda>d. ''{}''" "\<lambda>r. ''<html>''" "''xml''" empty_data]
      format_output_result [of "\<lambda>d. ''{}''" "\<lambda>r. ''<html>''" "''csv''" empty_data]
      format_output_result [of "\<lambda>d. ''{}''" "\<lambda>r. ''<html>''" "''json''" empty_data]
      format_output_result [of "\<lambda>d. ''{}''" "\<lambda>r. ''<html>''" "''html''" empty_data]
      x c j e h
    by (simp add: format_json_def lower_html)
qed

text \<open>
  C10.  \<open>format_output\<close> gives the same result for a format and for its lower-cased
  form, whatever the result is.  When the lower-cased form is \<open>json\<close> or \<open>csv\<close> it
  returns a string, and when it is none of the three formats the message of the error
  holds the lower-cased form.  When it is \<open>html\<close> the call can fail: for the data
  \<open>{'resources': [{'service': 'ec2', 'id': 'i', 'tags': None}]}\<close> and the format
  \<open>HTML\<close> it raises \<open>AttributeError\<close>.
\<close>

theorem format_output_case_insensitive:
  "format_output dumps page tags_none_data ''HTML'' = Inl AttributeError
   \<and> format_output dumps page data f = format_output dumps page data (lower f)
   \<and> (lower f = ''json'' \<or> lower f = ''csv'' \<longrightarrow>
        (\<exists>s. format_output dumps page data f = Inr s))
   \<and> (\<not> (lower f = ''json'' \<or> lower f = ''csv'' \<or> lower f = ''html'') \<longrightarrow>
        format_output dumps page data f = Inl (ValueError (''Unsupported format: '' @ lower f)))"
  by (auto simp: format_output_def Let_def lower_idem lower_HTML format_html_tags_none)

theorem format_output_case_insensitive_witness:
  "format_output (\<lambda>d. ''{}'') (\<lambda>r. ''<html>'') scenario_data ''CsV''
     = format_output (\<lambda>d. ''{}'') (\<lambda>r. ''<html>'') scenario_data ''csv''
   \<and> format_output (\<lambda>d. ''{}'') (\<lambda>r. ''<html>'') scenario_data ''XML''
     = Inl (ValueError ''Unsupported format: xml'')
   \<and> format_output (\<lambda>d. ''{}'') (\<lambda>r. ''<html>'') scenario_data ''XML''
     \<noteq> Inl (ValueError ''Unsupported format: XML'')
   \<and> format_output (\<lambda>d. ''{}'') (\<lambda>r. ''<html>'') tags_none_data ''HTML'' = Inl AttributeError"
proof -
  have x: "lower ''XML'' = ''xml''" and c: "lower ''CsV'' = ''csv''"
    by code_simp+
  have n: "\<not> (lower ''XML'' = ''json'' \<or> lower ''XML'' = ''csv'' \<or> lower ''XML'' = ''html'')"
    by (simp add: x)
  have a: "format_output (\<lambda>d. ''{}'') (\<lambda>r. ''<html>'') scenario_data ''XML''
     = Inl (ValueError (''Unsupported format: '' @ lower ''XML''))"
    using format_output_case_insensitive
      [of "\<lambda>d. ''{}''" "\<lambda>r. ''<html>''" scenario_data "''XML''"] n
    by blast
  have b: "format_output (\<lambda>d. ''{}'') (\<lambda>r. ''<html>'') scenario_data ''CsV''
     = format_output (\<lambda>d. ''{}'') (\<lambda>r. ''<html>'') scenario_data (lower ''CsV'')"
    using format_output_case_insensitive
      [of "\<lambda>d. ''{}''" "\<lambda>r. ''<html>''" scenario_data "''CsV''"]
    by blast
  have t: "format_output (\<lambda>d. ''{}'') (\<lambda>r. ''<html>'') tags_none_data ''HTML'' = Inl AttributeError"
    using format_output_case_insensitive
      [of "\<lambda>d. ''{}''" "\<lambda>r. ''<html>''" scenario_data "''XML''"]
    by blast
  show ?thesis
    using a b t by (simp add: x c)
qed


section \<open>The tag vocabulary\<close>

lemma collect_tags_add_tag:
  "collect_tags rs = foldl (\<lambda>d r. foldl add_tag d (record_tags r)) [] rs"
proof -
  have "(\<lambda>all_tags1 (k, v).
           let all_tags2 = (if map_of all_tags1 k = None
                            then AList.update k {} all_tags1 else all_tags1)
           in AList.map_entry k (insert v) all_tags2) = add_tag"
    by (auto simp: add_tag_def fun_eq_iff Let_def)
  then show ?thesis
    by (simp add: collect_tags_def record_tags_def)
qed

lemma distinct_add_tag: "distinct (map fst d) \<Longrightarrow> distinct (map fst (add_tag d kv))"
  by (simp add: add_tag_def AList.distinct_map_entry AList.distinct_update)

lemma list_all_map_entry:
  "list_all (\<lambda>p. finite (snd p)) d \<Longrightarrow> list_all (\<lambda>p. finite (snd p)) (AList.map_entry k (insert v) d)"
  by (induction d) auto

lemma list_all_update_empty:
  "list_all (\<lambda>p. finite (snd p)) d \<Longrightarrow> list_all (\<lambda>p. finite (snd p)) (AList.update k {} d)"
  by (induction d) auto

lemma finite_add_tag:
  "list_all (\<lambda>p. finite (snd p)) d \<Longrightarrow> list_all (\<lambda>p. finite (snd p)) (add_tag d kv)"
  by (simp add: add_tag_def list_all_map_entry list_all_update_empty)

lemma tag_pairs_add_tag: "tag_pairs (add_tag d kv) = insert kv (tag_pairs d)"
  by (cases kv)
     (auto simp: tag_pairs_def add_tag_def AList.map_of_map_entry AList.update_conv'
        split: if_splits option.splits)

lemma foldl_add_tag:
  "distinct (map fst d) \<and> list_all (\<lambda>p. finite (snd p)) d \<Longrightarrow>
   distinct (map fst (foldl add_tag d kvs))
   \<and> list_all (\<lambda>p. finite (snd p)) (foldl add_tag d kvs)
   \<and> tag_pairs (foldl add_tag d kvs) = tag_pairs d \<union> set kvs"
proof (induction kvs arbitrary: d)
  case Nil
  then show ?case by simp
next
  case (Cons kv kvs)
  have "distinct (map fst (add_tag d kv)) \<and> list_all (\<lambda>p. finite (snd p)) (add_tag d kv)"
    using Cons.prems by (simp add: distinct_add_tag finite_add_tag)
  from Cons.IH [OF this] show ?case
    by (auto simp: tag_pairs_add_tag)
qed

lemma collect_tags_invariant:
  "distinct (map fst (collect_tags rs))
   \<and> list_all (\<lambda>p. finite (snd p)) (collect_tags rs)
   \<and> tag_pairs (collect_tags rs) = (\<Union>r\<in>set rs. set (record_tags r))"
proof (induction rs rule: rev_induct)
  case Nil
  then show ?case by (simp add: collect_tags_add_tag tag_pairs_def)
next
  case (snoc r rs)
  have "collect_tags (rs @ [r]) = foldl add_tag (collect_tags rs) (record_tags r)"
    by (simp add: collect_tags_add_tag)
  with snoc foldl_add_tag [of "collect_tags rs" "record_tags r"] show ?case
    by auto
qed

lemma sorted_wrt_concat_pairs:
  "sorted_wrt (<) ks \<Longrightarrow> (\<And>k. sorted_wrt (<) (g k)) \<Longrightarrow>
   sorted_wrt lex_less (concat (map (\<lambda>k. map (\<lambda>v. (k, v)) (g k)) ks))"
proof (induction ks)
  case Nil
  then show ?case by simp
next
  case (Cons k ks)
  have "sorted_wrt lex_less (map (\<lambda>v. (k, v)) (g k))"
    using Cons.prems(2) [of k] by (simp add: sorted_wrt_map lex_less_def)
  moreover have "sorted_wrt lex_less (concat (map (\<lambda>k. map (\<lambda>v. (k, v)) (g k)) ks))"
    using Cons by simp
  moreover have "\<forall>a\<in>set (map (\<lambda>v. (k, v)) (g k)).
      \<forall>b\<in>set (concat (map (\<lambda>k. map (\<lambda>v. (k, v)) (g k)) ks)). lex_less a b"
    using Cons.prems(1) by (auto simp: lex_less_def)
  ultimately show ?case
    by (simp add: sorted_wrt_append)
qed

lemma tag_vocabulary_values_of:
  "tag_vocabulary d = concat (map (\<lambda>k. map (\<lambda>v. (k, v)) (values_of d k)) (sort (map fst d)))"
proof -
  have "(\<lambda>k. case map_of d k of None \<Rightarrow> [] | Some vs \<Rightarrow> map (\<lambda>v. (k, v)) (sorted_list_of_set vs))
      = (\<lambda>k. map (\<lambda>v. (k, v)) (values_of d k))"
    by (auto simp: values_of_def fun_eq_iff split: option.splits)
  then show ?thesis
    by (simp add: tag_vocabulary_def)
qed

lemma sorted_tag_vocabulary:
  "distinct (map fst d) \<Longrightarrow> sorted_wrt lex_less (tag_vocabulary d)"
proof -
  assume "distinct (map fst d)"
  then have "sorted_wrt (<) (sort (map fst d))"
    by (simp add: strict_sorted_iff)
  moreover have "\<And>k. sorted_wrt (<) (values_of d k)"
    by (simp add: values_of_def split: option.splits)
  ultimately show ?thesis
    unfolding tag_vocabulary_values_of by (rule sorted_wrt_concat_pairs)
qed

lemma set_values_of:
  "list_all (\<lambda>p. finite (snd p)) d \<Longrightarrow>
   v \<in> set (values_of d k) \<longleftrightarrow> (\<exists>s. map_of d k = Some s \<and> v \<in> s)"
proof -
  assume f: "list_all (\<lambda>p. finite (snd p)) d"
  show ?thesis
  proof (cases "map_of d k")
    case None
    then show ?thesis by (simp add: values_of_def)
  next
    case (Some vs)
    then have "(k, vs) \<in> set d"
      by (rule map_of_SomeD)
    with f have "finite vs"
      by (auto simp: list_all_iff)
    with Some show ?thesis
      by (simp add: values_of_def)
  qed
qed

lemma set_tag_vocabulary:
  "list_all (\<lambda>p. finite (snd p)) d \<Longrightarrow> set (tag_vocabulary d) = tag_pairs d"
proof -
  assume f: "list_all (\<lambda>p. finite (snd p)) d"
  have "set (tag_vocabulary d) = {(k, v). k \<in> fst ` set d \<and> v \<in> set (values_of d k)}"
    by (auto simp: tag_vocabulary_values_of)
  also have "\<dots> = {(k, v). k \<in> fst ` set d \<and> (\<exists>s. map_of d k = Some s \<and> v \<in> s)}"
    by (simp add: set_values_of [OF f])
  also have "\<dots> = tag_pairs d"
    by (auto simp: tag_pairs_def dest: map_of_SomeD intro: rev_image_eqI)
  finally show ?thesis .
qed

lemma distinct_sorted_lex_less:
  "sorted_wrt lex_less xs \<Longrightarrow> distinct xs"
  by (induction xs) (auto simp: lex_less_def)

text \<open>
  C8.  The tag vocabulary of a record list is ordered by key and, under one key, by
  value, both strictly; it has no pair twice; its pairs are exactly the tag pairs of the
  records.  The options of the tag filter are written from it, one for each pair, in
  this order.
\<close>

theorem tag_vocabulary_sorted_distinct:
  "sorted_wrt lex_less (tag_vocabulary (collect_tags rs))
   \<and> distinct (tag_vocabulary (collect_tags rs))
   \<and> set (tag_vocabulary (collect_tags rs)) = (\<Union>r\<in>set rs. set (record_tags r))
   \<and> tag_options rs = map tag_option (tag_vocabulary (collect_tags rs))"
  using collect_tags_invariant [of rs]
  by (simp add: sorted_tag_vocabulary distinct_sorted_lex_less set_tag_vocabulary tag_options_def)

theorem tag_vocabulary_sorted_distinct_witness:
  "tag_vocabulary (collect_tags tag_sample)
     = [(''app'', ''x''), (''env'', ''dev''), (''env'', ''prod''), (''team'', ''core'')]
   \<and> distinct (tag_vocabulary (collect_tags tag_sample))"
proof -
  have "tag_vocabulary (collect_tags tag_sample)
     = [(''app'', ''x''), (''env'', ''dev''), (''env'', ''prod''), (''team'', ''core'')]"
    by code_simp
  then show ?thesis
    using tag_vocabulary_sorted_distinct [of tag_sample] by simp
qed


section \<open>The summary charts\<close>

lemma mset_sorted_reverse: "mset (sorted_reverse f xs) = mset xs"
  by (simp add: sorted_reverse_def)

lemma descending_sorted_reverse: "sorted_wrt (\<lambda>a b. f b \<le> f a) (sorted_reverse f xs)"
proof -
  have "sorted (map f (sort_key f (rev xs)))"
    by simp
  then have "sorted_wrt (\<lambda>a b. f a \<le> f b) (sort_key f (rev xs))"
    by (simp add: sorted_map)
  then show ?thesis
    by (simp add: sorted_reverse_def sorted_wrt_rev)
qed

lemma stable_sorted_reverse:
  "filter (\<lambda>x. f x = n) (sorted_reverse f xs) = filter (\<lambda>x. f x = n) xs"
proof -
  have "filter (\<lambda>x. f x = n) (sorted_reverse f xs)
      = rev (filter (\<lambda>x. f x = n) (sort_key f (rev xs)))"
    by (simp add: sorted_reverse_def rev_filter)
  also have "\<dots> = rev (filter (\<lambda>x. f x = n) (rev xs))"
    by (simp add: sort_key_stable)
  also have "\<dots> = filter (\<lambda>x. f x = n) xs"
    by (simp add: rev_filter)
  finally show ?thesis .
qed

lemma group_services_Nil: "group_services [] = []"
  by (simp add: group_services_def)

lemma group_regions_Nil: "group_regions [] = []"
  by (simp add: group_regions_def)

lemma sorted_reverse_Nil: "sorted_reverse f [] = []"
  by (simp add: sorted_reverse_def)

lemma source_width_percent:
  "rs \<noteq> [] \<Longrightarrow> min 100 (c * 100 div max (Suc 0) (length rs)) = percent c (length rs)"
  by (cases rs) (simp_all add: percent_def)

lemma service_stats_percent:
  "service_stats rs =
     map (\<lambda>p. \<lparr>stat_label = fst p, bar_width = percent (length (snd p)) (length rs),
                stat_value = length (snd p)\<rparr>) (top_services rs)"
proof (cases "rs = []")
  case True
  then show ?thesis
    by (simp add: service_stats_def top_services_def group_services_Nil sorted_reverse_Nil)
next
  case False
  then show ?thesis
    by (simp add: service_stats_def Let_def source_width_percent case_prod_unfold)
qed

lemma region_stats_percent:
  "region_stats rs =
     map (\<lambda>p. \<lparr>stat_label = fst p, bar_width = percent (snd p) (length rs),
                stat_value = snd p\<rparr>) (top_regions rs)"
proof (cases "rs = []")
  case True
  then show ?thesis
    by (simp add: region_stats_def top_regions_def group_regions_Nil sorted_reverse_Nil)
next
  case False
  then show ?thesis
    by (simp add: region_stats_def Let_def source_width_percent case_prod_unfold)
qed

text \<open>
  C9.  Each chart takes the first five groups of the ranking of its groups.  The ranking
  is a rearrangement of the groups in descending order of count, and the groups of equal
  count keep the order they have in the dict, which is the order in which their keys
  were first seen.  The width of a bar is the count of its group as a percentage of the
  number of records, at most 100, and 0 when there is no record.
\<close>

theorem top_five_charts:
  "top_services rs = take 5 (sorted_reverse (\<lambda>x. length (snd x)) (group_services rs))
   \<and> top_regions rs = take 5 (sorted_reverse snd (group_regions rs))
   \<and> mset (sorted_reverse (\<lambda>x. length (snd x)) (group_services rs)) = mset (group_services rs)
   \<and> mset (sorted_reverse snd (group_regions rs)) = mset (group_regions rs)
   \<and> sorted_wrt (\<lambda>a b. length (snd b) \<le> length (snd a))
        (sorted_reverse (\<lambda>x. length (snd x)) (group_services rs))
   \<and> sorted_wrt (\<lambda>a b. snd b \<le> snd a) (sorted_reverse snd (group_regions rs))
   \<and> (\<forall>n. filter (\<lambda>x. length (snd x) = n)
              (sorted_reverse (\<lambda>x. length (snd x)) (group_services rs))
            = filter (\<lambda>x. length (snd x) = n) (group_services rs))
   \<and> (\<forall>n. filter (\<lambda>x. snd x = n) (sorted_reverse snd (group_regions rs))
            = filter (\<lambda>x. snd x = n) (group_regions rs))
   \<and> service_stats rs =
        map (\<lambda>p. \<lparr>stat_label = fst p, bar_width = percent (length (snd p)) (length rs),
                   stat_value = length (snd p)\<rparr>) (top_services rs)
   \<and> region_stats rs =
        map (\<lambda>p. \<lparr>stat_label = fst p, bar_width = percent (snd p) (length rs),
                   stat_value = snd p\<rparr>) (top_regions rs)"
  using service_stats_percent [of rs] region_stats_percent [of rs]
  by (simp add: top_services_def top_regions_def mset_sorted_reverse
        descending_sorted_reverse stable_sorted_reverse)

theorem top_five_charts_witness:
  "region_stats chart_sample =
     [\<lparr>stat_label = ''b'', bar_width = 28, stat_value = 2\<rparr>,
      \<lparr>stat_label = ''a'', bar_width = 14, stat_value = 1\<rparr>,
      \<lparr>stat_label = ''c'', bar_width = 14, stat_value = 1\<rparr>,
      \<lparr>stat_label = ''global'', bar_width = 14, stat_value = 1\<rparr>,
      \<lparr>stat_label = ''d'', bar_width = 14, stat_value = 1\<rparr>]
   \<and> region_stats [] = []"
proof -
  have t: "top_regions chart_sample = [(''b'', 2), (''a'', 1), (''c'', 1), (''global'', 1), (''d'', 1)]"
    by code_simp
  have e: "top_regions [] = []"
    by code_simp
  have l: "length chart_sample = 7"
    by (simp add: chart_sample_def)
  have p: "percent 2 7 = 28" "percent 1 7 = 14"
    by (simp_all add: percent_def)
  show ?thesis
    using top_five_charts [of chart_sample] top_five_charts [of "[]"] t e l p
    by simp
qed


section \<open>Filtering\<close>

lemma filter_row_matches:
  "matchService v (filter_row s v' r t rw) = matchService v rw"
  "matchRegion g (filter_row s v' r t rw) = matchRegion g rw"
  "matchSearch q (filter_row s v' r t rw) = matchSearch q rw"
  "matchTag u (filter_row s v' r t rw) = matchTag u rw"
  "data_service (filter_row s v' r t rw) = data_service rw"
  by (simp_all add: filter_row_def matchService_def matchRegion_def matchSearch_def matchTag_def
        split: option.splits)

lemma filter_row_hidden:
  "row_hidden (filter_row s v r t rw)
     = (\<not> (matchService v rw \<and> matchRegion r rw \<and> matchSearch s rw \<and> matchTag t rw))"
  by (simp add: filter_row_def split: option.splits)

lemma row_matches_filter_row: "row_matches ctl (filter_row s v r t rw) = row_matches ctl rw"
  by (simp add: row_matches_def filter_row_matches)

lemma filter_section_service:
  "section_service (filter_section s v r t sec) = section_service sec"
  by (simp add: filter_section_def Let_def)

lemma filter_section_rows:
  "map (row_matches ctl) (section_rows (filter_section s v r t sec))
     = map (row_matches ctl) (section_rows sec)"
  by (simp add: filter_section_def Let_def row_matches_filter_row o_def)

lemma match_table_filterResources: "match_table ctl (filterResources c page) = match_table ctl page"
  by (simp add: match_table_def filterResources_def Let_def filter_section_rows o_def)

lemma filter_section_rows_of_section:
  "list_all (\<lambda>rw. data_service rw = section_service sec) (section_rows sec) \<Longrightarrow>
   list_all (\<lambda>rw. data_service rw = section_service (filter_section s v r t sec))
     (section_rows (filter_section s v r t sec))"
  by (simp add: filter_section_def Let_def list_all_iff filter_row_matches)

lemma rows_of_section_filterResources:
  "rows_of_section page \<Longrightarrow> rows_of_section (filterResources c page)"
  by (simp add: rows_of_section_def filterResources_def Let_def list_all_iff
        filter_section_rows_of_section [unfolded list_all_iff])

lemma rows_of_section_service_sections: "rows_of_section (service_sections rs)"
  by (simp add: rows_of_section_def service_sections_def Let_def list_all_iff render_row_def)

lemma visible_count_pos:
  "0 < length (filter (\<lambda>rw. \<not> row_hidden rw) (map (filter_row s v r t) rws))
   \<longleftrightarrow> (\<exists>rw\<in>set rws. matchService v rw \<and> matchRegion r rw \<and> matchSearch s rw
                          \<and> matchTag t rw)"
  by (auto simp: filter_row_hidden filter_empty_conv)

lemma filter_section_not_skipped:
  "\<not> (v \<noteq> [] \<and> section_service sec \<noteq> v) \<Longrightarrow>
   section_rows (filter_section s v r t sec) = map (filter_row s v r t) (section_rows sec)
   \<and> section_hidden (filter_section s v r t sec)
       = (\<not> (\<exists>rw\<in>set (section_rows sec). matchService v rw \<and> matchRegion r rw
              \<and> matchSearch s rw \<and> matchTag t rw))"
  unfolding filter_section_def Let_def visible_count_pos by auto

lemma filter_section_skipped:
  "v \<noteq> [] \<and> section_service sec \<noteq> v \<Longrightarrow>
   section_rows (filter_section s v r t sec) = section_rows sec
   \<and> section_hidden (filter_section s v r t sec)"
  by (simp add: filter_section_def)

lemma filter_section_visibility:
  assumes "list_all (\<lambda>rw. data_service rw = section_service sec) (section_rows sec)"
  shows "map (\<lambda>rw. \<not> section_hidden (filter_section s v r t sec) \<and> \<not> row_hidden rw)
           (section_rows (filter_section s v r t sec))
         = map (\<lambda>rw. matchService v rw \<and> matchRegion r rw \<and> matchSearch s rw \<and> matchTag t rw)
             (section_rows sec)"
proof (cases "v \<noteq> [] \<and> section_service sec \<noteq> v")
  case True
  with assms have "\<forall>rw\<in>set (section_rows sec). \<not> matchService v rw"
    by (auto simp: list_all_iff matchService_def)
  with filter_section_skipped [OF True, of s r t] show ?thesis
    by simp
next
  case False
  from filter_section_not_skipped [OF False, of s r t] show ?thesis
    by (auto simp: filter_row_hidden)
qed

lemma visibility_filterResources:
  "rows_of_section page \<Longrightarrow> visibility (filterResources ctl page) = match_table ctl page"
  by (simp add: visibility_def filterResources_def match_table_def Let_def o_def
        rows_of_section_def list_all_iff row_matches_def
        filter_section_visibility [unfolded list_all_iff])

lemma filtered_invariant:
  "rows_of_section (filtered rs history)
   \<and> match_table ctl (filtered rs history) = match_table ctl (service_sections rs)"
proof (induction history rule: rev_induct)
  case Nil
  then show ?case by (simp add: filtered_def rows_of_section_service_sections)
next
  case (snoc c history)
  then show ?case
    by (simp add: filtered_def rows_of_section_filterResources match_table_filterResources)
qed

lemma length_filterResources: "length (filterResources c page) = length page"
  by (simp add: filterResources_def Let_def)

lemma row_matches_filterResources_nth:
  assumes "i < length page"
  shows "map (row_matches ctl) (section_rows (filterResources c page ! i))
           = map (row_matches ctl) (section_rows (page ! i))"
  using assms by (simp add: filterResources_def Let_def filter_section_rows)

lemma length_rows_filter_section:
  "length (section_rows (filter_section s v r t sec)) = length (section_rows sec)"
  by (simp add: filter_section_def Let_def)

lemma length_rows_filterResources:
  "i < length page \<Longrightarrow>
   length (section_rows (filterResources c page ! i)) = length (section_rows (page ! i))"
  by (simp add: filterResources_def Let_def length_rows_filter_section)

lemma visible_set_filterResources:
  assumes "rows_of_section page"
  shows "visible_set (filterResources ctl page) =
           {(i, j). i < length page \<and> j < length (section_rows (page ! i))
                    \<and> row_matches ctl (section_rows (page ! i) ! j)}"
proof -
  have "\<And>i j. i < length page \<Longrightarrow> j < length (section_rows (page ! i)) \<Longrightarrow>
          visibility (filterResources ctl page) ! i ! j
            = row_matches ctl (section_rows (page ! i) ! j)"
    by (simp add: visibility_filterResources [OF assms] match_table_def)
  then show ?thesis
    by (auto simp: visible_set_def length_filterResources length_rows_filterResources)
qed

lemma row_matches_region_unset:
  "row_matches \<lparr>searchBox = q, serviceFilter = s, regionFilter = r, tagFilter = t\<rparr> rw \<Longrightarrow>
   row_matches \<lparr>searchBox = q, serviceFilter = s, regionFilter = [], tagFilter = t\<rparr> rw"
  by (simp add: row_matches_def matchRegion_def)

lemma visible_set_region_subset:
  assumes "rows_of_section page"
  shows "visible_set (filterResources
             \<lparr>searchBox = q, serviceFilter = s, regionFilter = r, tagFilter = t\<rparr>
             (filterResources \<lparr>searchBox = q, serviceFilter = s, regionFilter = [], tagFilter = t\<rparr> page))
         \<subseteq> visible_set
             (filterResources \<lparr>searchBox = q, serviceFilter = s, regionFilter = [], tagFilter = t\<rparr> page)"
proof -
  let ?c0 = "\<lparr>searchBox = q, serviceFilter = s, regionFilter = [], tagFilter = t\<rparr>"
  let ?c1 = "\<lparr>searchBox = q, serviceFilter = s, regionFilter = r, tagFilter = t\<rparr>"
  have w: "rows_of_section (filterResources ?c0 page)"
    using assms by (rule rows_of_section_filterResources)
  have n: "\<And>i j. i < length page \<Longrightarrow> j < length (section_rows (page ! i)) \<Longrightarrow>
      row_matches ?c1 (section_rows (filterResources ?c0 page ! i) ! j)
        = row_matches ?c1 (section_rows (page ! i) ! j)"
  proof -
    fix i j
    assume i: "i < length page" and j: "j < length (section_rows (page ! i))"
    have "map (row_matches ?c1) (section_rows (filterResources ?c0 page ! i)) ! j
            = map (row_matches ?c1) (section_rows (page ! i)) ! j"
      by (simp only: row_matches_filterResources_nth [OF i])
    then show "row_matches ?c1 (section_rows (filterResources ?c0 page ! i) ! j)
        = row_matches ?c1 (section_rows (page ! i) ! j)"
      using i j by (simp add: length_rows_filterResources)
  qed
  show ?thesis
    unfolding visible_set_filterResources [OF w] visible_set_filterResources [OF assms]
    by (auto simp: length_filterResources length_rows_filterResources n
          dest: row_matches_region_unset)
qed

lemma row_matches_unset:
  "row_matches \<lparr>searchBox = [], serviceFilter = [], regionFilter = [], tagFilter = []\<rparr> rw"
  by (simp add: row_matches_def matchService_def matchRegion_def matchSearch_def matchTag_def
        lower_def)

text \<open>
  C7.  Take the page of any record list after any history of filtering, and filter it
  with any values of the controls.  Then a row is on the screen exactly when the four
  predicates hold for it: service, region, search text (against the lower-cased search
  box) and tag.  With all four controls unset every row matches.  The rows on the
  screen with a service and a region selected are among the rows on the screen with
  the same service selected and no region.
\<close>

theorem filter_visibility:
  "visibility (filterResources ctl (filtered rs history)) = match_table ctl (service_sections rs)
   \<and> row_matches \<lparr>searchBox = [], serviceFilter = [], regionFilter = [], tagFilter = []\<rparr> rw
   \<and> visible_set (filterResources
         \<lparr>searchBox = q, serviceFilter = s, regionFilter = r, tagFilter = t\<rparr>
         (filterResources \<lparr>searchBox = q, serviceFilter = s, regionFilter = [], tagFilter = t\<rparr>
            (filtered rs history)))
       \<subseteq> visible_set
           (filterResources \<lparr>searchBox = q, serviceFilter = s, regionFilter = [], tagFilter = t\<rparr>
              (filtered rs history))"
  using filtered_invariant [of rs history ctl]
  by (simp add: visibility_filterResources visible_set_region_subset row_matches_unset)

theorem filter_visibility_witness:
  "visibility (filterResources search_prod (filtered filter_sample [select_s3]))
     = [[False, False, True], [False]]
   \<and> visible_set (filterResources
         \<lparr>searchBox = [], serviceFilter = ''ec2'', regionFilter = ''eu-west-1'', tagFilter = []\<rparr>
         (filterResources \<lparr>searchBox = [], serviceFilter = ''ec2'', regionFilter = [], tagFilter = []\<rparr>
            (filtered filter_sample [select_s3])))
       \<subseteq> visible_set
           (filterResources \<lparr>searchBox = [], serviceFilter = ''ec2'', regionFilter = [], tagFilter = []\<rparr>
              (filtered filter_sample [select_s3]))"
proof -
  have m: "match_table search_prod (service_sections filter_sample) = [[False, False, True], [False]]"
    by code_simp
  show ?thesis
    using filter_visibility [where ctl = search_prod and rs = filter_sample
        and history = "[select_s3]" and q = "[]" and s = "''ec2''" and r = "''eu-west-1''"
        and t = "[]"] m
    by simp
qed


section \<open>Highlighting\<close>

lemma nodes_text_simps:
  "nodes_text [] = []"
  "nodes_text (n # ns) = textContent n @ nodes_text ns"
  "nodes_text (ns @ ms) = nodes_text ns @ nodes_text ms"
  by (simp_all add: nodes_text_def)

lemma nodes_text_normalize: "nodes_text (normalize ns) = nodes_text ns"
  by (induction ns rule: normalize.induct)
     (auto simp: nodes_text_simps split: list.splits node.splits)

lemma nodes_text_replace_mark: "nodes_text (replace_mark ns) = nodes_text ns"
  by (induction ns rule: replace_mark.induct) (auto simp: nodes_text_simps)

lemma list_ex_is_mark_filter: "list_ex is_mark ns \<longleftrightarrow> filter is_mark ns \<noteq> []"
  by (auto simp: list_ex_iff filter_empty_conv)

lemma list_ex_is_mark_normalize: "list_ex is_mark (normalize ns) = list_ex is_mark ns"
  by (simp add: list_ex_is_mark_filter filter_is_mark_normalize)

lemma normalize_no_marks:
  "\<not> list_ex is_mark ns \<Longrightarrow>
   normalize ns = (if nodes_text ns = [] then [] else [TextNode (nodes_text ns)])"
  by (induction ns rule: normalize.induct) (auto simp: nodes_text_simps)

lemma clearHighlights_result:
  "clearHighlights ns =
     (if list_ex is_mark ns
      then (if nodes_text ns = [] then [] else [TextNode (nodes_text ns)])
      else ns)"
proof (induction ns rule: clearHighlights.induct)
  case (1 ns)
  show ?case
  proof (cases "list_ex is_mark ns")
    case False
    then show ?thesis by (simp add: clearHighlights.simps [of ns])
  next
    case True
    let ?ms = "normalize (replace_mark ns)"
    have t: "nodes_text ?ms = nodes_text ns"
      by (simp add: nodes_text_normalize nodes_text_replace_mark)
    have c: "clearHighlights ns = clearHighlights ?ms"
      using True by (simp add: clearHighlights.simps [of ns])
    show ?thesis
    proof (cases "list_ex is_mark ?ms")
      case True
      with "1.IH" [OF \<open>list_ex is_mark ns\<close>] c t \<open>list_ex is_mark ns\<close> show ?thesis
        by simp
    next
      case False
      then have "\<not> list_ex is_mark (replace_mark ns)"
        by (simp add: list_ex_is_mark_normalize)
      then have "?ms = (if nodes_text ns = [] then [] else [TextNode (nodes_text ns)])"
        by (simp add: normalize_no_marks nodes_text_replace_mark)
      moreover have "clearHighlights ?ms = ?ms"
        using False by (simp add: clearHighlights.simps [of ?ms])
      ultimately show ?thesis
        using c \<open>list_ex is_mark ns\<close> by simp
    qed
  qed
qed

lemma find_from_bound: "find_from pat xs = Some i \<Longrightarrow> i + length pat \<le> length xs"
proof (induction xs arbitrary: i)
  case Nil
  then show ?case by (simp split: if_splits)
next
  case (Cons x xs)
  then show ?case
    by (auto split: if_splits dest: prefix_length_le)
qed

lemma indexOf_bound:
  "indexOf s pat from = Some idx \<Longrightarrow> from \<le> length s \<Longrightarrow>
   from \<le> idx \<and> idx + length pat \<le> length s"
  by (auto simp: indexOf_def Let_def min_def dest!: find_from_bound)

lemma substring_take_drop:
  "a \<le> b \<Longrightarrow> b \<le> length s \<Longrightarrow> substring s a b = take (b - a) (drop a s)"
  by (simp add: substring_def Let_def min_def max_def)

lemma take_split: "a \<le> b \<Longrightarrow> take a s @ take (b - a) (drop a s) = take b s"
  by (metis le_add_diff_inverse take_add)

lemma highlight_loop_returns:
  assumes q: "term \<noteq> []"
    and l: "length lowerText = length text"
    and m: "length termLower = length term"
  shows "lastIdx \<le> length text \<Longrightarrow> nodes_text frag = take lastIdx text \<Longrightarrow>
     (found \<longrightarrow> text \<noteq> []) \<Longrightarrow> found = list_ex is_mark frag \<Longrightarrow>
     \<exists>frag' lastIdx' found'.
        highlight_loop text lowerText termLower term lastIdx frag found
          = Some (frag', lastIdx', found')
        \<and> lastIdx' \<le> length text \<and> nodes_text frag' = take lastIdx' text
        \<and> (found' \<longrightarrow> text \<noteq> []) \<and> found' = list_ex is_mark frag'"
proof (induction "length text - lastIdx" arbitrary: lastIdx frag found rule: less_induct)
  case less
  show ?case
  proof (cases "indexOf lowerText termLower lastIdx")
    case None
    then have "highlight_loop text lowerText termLower term lastIdx frag found
        = Some (frag, lastIdx, found)"
      by (subst highlight_loop.simps) simp
    with less.prems show ?thesis
      by simp
  next
    case (Some idx)
    let ?frag = "frag @ (if lastIdx < idx then [TextNode (substring text lastIdx idx)] else [])
                  @ [MarkElem (substring text idx (idx + length term))]"
    have b: "lastIdx \<le> idx \<and> idx + length term \<le> length text"
      using indexOf_bound [OF Some] less.prems(1) l m by simp
    have step: "highlight_loop text lowerText termLower term lastIdx frag found
        = highlight_loop text lowerText termLower term (idx + length term) ?frag True"
      using Some by (subst highlight_loop.simps) simp
    have d: "length text - (idx + length term) < length text - lastIdx"
      using b q by (cases "term") auto
    have t1: "substring text lastIdx idx = take (idx - lastIdx) (drop lastIdx text)"
      using b by (simp add: substring_take_drop)
    have t2: "substring text idx (idx + length term) = take (length term) (drop idx text)"
      using b by (simp add: substring_take_drop)
    have p1: "take lastIdx text @ take (idx - lastIdx) (drop lastIdx text) = take idx text"
      using b by (simp add: take_split)
    have p2: "take idx text @ take (length term) (drop idx text) = take (idx + length term) text"
      using take_split [of idx "idx + length term" "text"] by simp
    have "nodes_text ?frag
        = (take lastIdx text @ take (idx - lastIdx) (drop lastIdx text))
            @ take (length term) (drop idx text)"
      using b less.prems(2) by (auto simp: nodes_text_simps t1 t2)
    then have n: "nodes_text ?frag = take (idx + length term) text"
      by (simp only: p1 p2)
    have e: "text \<noteq> []"
      using b q by (cases "term") auto
    have k: "True = list_ex is_mark ?frag"
      by simp
    from less.hyps [OF d _ n _ k] b e step show ?thesis
      by simp
  qed
qed

lemma highlight_text_returns:
  assumes "term \<noteq> []"
  shows "\<exists>ns. highlight_text text term = Some ns \<and> nodes_text ns = text
           \<and> (ns = [TextNode text] \<or> (list_ex is_mark ns \<and> text \<noteq> []))"
proof -
  have "length (lower text) = length text" and "length (lower term) = length term"
    by (simp_all add: lower_def)
  from highlight_loop_returns [OF assms this, of 0 "[]" False]
  obtain frag lastIdx found where
    r: "highlight_loop text (lower text) (lower term) term 0 [] False = Some (frag, lastIdx, found)"
    and b: "lastIdx \<le> length text" and n: "nodes_text frag = take lastIdx text"
    and e: "found \<longrightarrow> text \<noteq> []" and f: "found = list_ex is_mark frag"
    by (auto simp: nodes_text_simps)
  show ?thesis
  proof (cases found)
    case False
    with r show ?thesis
      by (simp add: highlight_text_def nodes_text_simps)
  next
    case True
    have "substring text lastIdx (length text) = drop lastIdx text"
      using b by (simp add: substring_take_drop)
    with True r b n e f show ?thesis
      by (auto simp: highlight_text_def nodes_text_simps)
  qed
qed

text \<open>
  C6.  For every text and every query, \<open>highlightMatches\<close> on an element that holds
  the text as one text node returns (its loop ends), and \<open>clearHighlights\<close> on what
  it returns gives back the one text node with the same text.  For the empty query
  \<open>highlightMatches\<close> leaves the text node as it is, with no \<open>mark\<close>.
\<close>

theorem clear_after_highlight:
  "(\<exists>ns. highlightMatches [TextNode t] q = Some ns \<and> clearHighlights ns = [TextNode t])
   \<and> highlightMatches [TextNode t] [] = Some [TextNode t]"
proof -
  have c: "clearHighlights [TextNode t] = [TextNode t]"
    by (simp add: clearHighlights_result)
  have e: "highlightMatches [TextNode t] [] = Some [TextNode t]"
    by (simp add: highlightMatches_def c)
  have "\<exists>ns. highlightMatches [TextNode t] q = Some ns \<and> clearHighlights ns = [TextNode t]"
  proof (cases "q = []")
    case True
    with e c show ?thesis by simp
  next
    case False
    from highlight_text_returns [OF False, of t]
    obtain ns where h: "highlight_text t q = Some ns" and n: "nodes_text ns = t"
      and k: "ns = [TextNode t] \<or> (list_ex is_mark ns \<and> t \<noteq> [])"
      by blast
    have "highlightMatches [TextNode t] q = Some ns"
      using False h by (simp add: highlightMatches_def c)
    moreover have "clearHighlights ns = [TextNode t]"
      using k n by (auto simp: clearHighlights_result)
    ultimately show ?thesis
      by simp
  qed
  with e show ?thesis
    by simp
qed

theorem clear_after_highlight_witness:
  "highlightMatches [TextNode ''Prod, prod and PRODUCT''] ''prod''
     = Some [MarkElem ''Prod'', TextNode '', '', MarkElem ''prod'', TextNode '' and '',
             MarkElem ''PROD'', TextNode ''UCT'']
   \<and> clearHighlights [MarkElem ''Prod'', TextNode '', '', MarkElem ''prod'', TextNode '' and '',
             MarkElem ''PROD'', TextNode ''UCT''] = [TextNode ''Prod, prod and PRODUCT'']
   \<and> highlightMatches [TextNode ''Prod, prod and PRODUCT''] [] = Some [TextNode ''Prod, prod and PRODUCT'']"
proof -
  have h: "highlightMatches [TextNode ''Prod, prod and PRODUCT''] ''prod''
     = Some [MarkElem ''Prod'', TextNode '', '', MarkElem ''prod'', TextNode '' and '',
             MarkElem ''PROD'', TextNode ''UCT'']"
    by code_simp
  show ?thesis
    using clear_after_highlight [of "''Prod, prod and PRODUCT''" "''prod''"] h
    by auto
qed

end
